theory Spec2Isabelle
  imports Main "HOL-Library.Sublist"
begin

section \<open>Data model of \<^verbatim>\<open>app.py\<close>\<close>

text \<open>
  A Python \<^verbatim>\<open>str\<close> is a sequence of Unicode code points, and slicing and \<^verbatim>\<open>len\<close>
  count code points. A string is therefore a list of code points (natural numbers);
  \<open>lit\<close> embeds an ASCII literal of the source.
\<close>

type_synonym str = "nat list"

definition lit :: "string \<Rightarrow> str" where
  "lit s = map of_char s"

text \<open>A chat message: the dictionary \<^verbatim>\<open>{"role": ..., "content": ...}\<close>.\<close>

record message =
  role :: str
  content :: str

subsection \<open>\<^verbatim>\<open>get_session_title\<close>\<close>

text \<open>
  \<^verbatim>\<open>
  def get_session_title(messages):
      for m in messages:
          if m["role"] == "user":
              return m["content"][:30] + "..."
      return "New Chat"
  \<close>
\<close>

fun get_session_title :: "message list \<Rightarrow> str" where
  "get_session_title [] = lit ''New Chat''"
| "get_session_title (m # messages) =
     (if role m = lit ''user'' then take 30 (content m) @ lit ''...''
      else get_session_title messages)"

subsection \<open>Dictionaries\<close>

text \<open>
  A Python \<^verbatim>\<open>dict\<close> keeps its keys in insertion order and iterates in that order:
  an association list. \<^verbatim>\<open>d[k] = v\<close> replaces the value of a key that is present, where it
  stands, and puts a new key last; \<^verbatim>\<open>del d[k]\<close> raises \<^verbatim>\<open>KeyError\<close> (here \<open>None\<close>) when the
  key is absent, and so does \<^verbatim>\<open>d[k]\<close>.
\<close>

type_synonym ('k, 'v) dict = "('k \<times> 'v) list"

definition contains :: "('k, 'v) dict \<Rightarrow> 'k \<Rightarrow> bool" where
  "contains d k = (k \<in> set (map fst d))"

definition getitem :: "('k, 'v) dict \<Rightarrow> 'k \<Rightarrow> 'v option" where
  "getitem d k = map_of d k"

fun setitem :: "('k, 'v) dict \<Rightarrow> 'k \<Rightarrow> 'v \<Rightarrow> ('k, 'v) dict" where
  "setitem [] k v = [(k, v)]"
| "setitem ((k', v') # d) k v =
     (if k' = k then (k, v) # d else (k', v') # setitem d k v)"

definition delitem :: "('k, 'v) dict \<Rightarrow> 'k \<Rightarrow> ('k, 'v) dict option" where
  "delitem d k =
     (if contains d k then Some (filter (\<lambda>(k', v). k' \<noteq> k) d) else None)"

subsection \<open>Session state, object store and durable artifacts\<close>

text \<open>
  An exception raised by an external service; \<^verbatim>\<open>str(e)\<close> is its message.
\<close>

datatype exn = Exception str

fun str_of :: "exn \<Rightarrow> str" where
  "str_of (Exception msg) = msg"

text \<open>
  The message list of a session is a mutable Python list, and the code shares it:
  \<^verbatim>\<open>st.session_state.messages = st.session_state.full_history[sid]["messages"]\<close> and
  \<^verbatim>\<open>"messages": st.session_state.messages\<close> store a reference, not a copy, and
  \<^verbatim>\<open>st.session_state.messages.append(...)\<close> mutates the shared object. The lists
  therefore live in an object store, and the state holds references into it.
\<close>

type_synonym ref = nat

text \<open>An entry of \<^verbatim>\<open>st.session_state.full_history\<close>; \<^verbatim>\<open>title\<close> and \<^verbatim>\<open>timestamp\<close>
  are read with \<^verbatim>\<open>.get\<close> and a default, so they may be missing.\<close>

record session =
  e_title :: "str option"
  e_messages :: ref
  e_timestamp :: "str option"

text \<open>The same entry as it stands in the JSON document of an identity.\<close>

record json_session =
  j_title :: "str option"
  j_messages :: "message list"
  j_timestamp :: "str option"

datatype file_content = Unparsable | Json "(str, json_session) dict"

text \<open>
  What happens when a path is opened for writing and a document is dumped to it:
  the document is written; or \<^verbatim>\<open>open(filename, "w")\<close> raises (the directory of the path
  is missing, the path may not be written) and the file system stays as it is; or
  \<^verbatim>\<open>open\<close> has truncated the file and \<^verbatim>\<open>json.dump\<close> raises, which leaves a file
  that \<^verbatim>\<open>json.load\<close> cannot read.
\<close>

datatype write_result = Written | Open_raises exn | Dump_raises exn

text \<open>
  The state of one browser session (\<^verbatim>\<open>st.session_state\<close>), the object store, the
  files of the working directory, and what the environment does when a path is
  written.
\<close>

record state =
  files :: "str \<Rightarrow> file_content option"
  on_write :: "str \<Rightarrow> write_result"
  heap :: "ref \<Rightarrow> message list"
  next_ref :: ref
  username :: "str option"
  guest_mode :: bool
  full_history :: "(str, session) dict"
  current_session_id :: str
  messages :: ref

text \<open>\<^verbatim>\<open>filename = f"history_{username}.json"\<close>\<close>

definition history_filename :: "str \<Rightarrow> str" where
  "history_filename u = lit ''history_'' @ u @ lit ''.json''"

text \<open>
  \<^verbatim>\<open>json.dump\<close> writes the contents of the lists the entries refer to; \<^verbatim>\<open>json.load\<close>
  builds a new list object for every entry.
\<close>

definition json_dump :: "(ref \<Rightarrow> message list) \<Rightarrow> (str, session) dict \<Rightarrow> (str, json_session) dict" where
  "json_dump h d =
     map (\<lambda>(sid, e). (sid, \<lparr>j_title = e_title e, j_messages = h (e_messages e),
                               j_timestamp = e_timestamp e\<rparr>)) d"

fun json_load :: "(str, json_session) dict \<Rightarrow> (ref \<Rightarrow> message list) \<Rightarrow> ref \<Rightarrow>
    (str, session) dict \<times> (ref \<Rightarrow> message list) \<times> ref" where
  "json_load [] h n = ([], h, n)"
| "json_load ((sid, j) # d) h n =
     (case json_load d (h(n := j_messages j)) (Suc n) of
        (d', h', n') \<Rightarrow>
          ((sid, \<lparr>e_title = j_title j, e_messages = n, e_timestamp = j_timestamp j\<rparr>) # d',
           h', n'))"

text \<open>
  \<^verbatim>\<open>not username\<close> holds of \<^verbatim>\<open>None\<close> and of the empty string.
  \<^verbatim>\<open>
  def load_history(username=None):
      if not username:
          return {}
      filename = f"history_{username}.json"
      if os.path.exists(filename):
          try:
              with open(filename, "r", encoding="utf-8") as f:
                  return json.load(f)
          except:
              return {}
      return {}
  \<close>
\<close>

definition load_history :: "(str \<Rightarrow> file_content option) \<Rightarrow> str option \<Rightarrow> (str, json_session) dict" where
  "load_history fs u =
     (case u of
        None \<Rightarrow> []
      | Some name \<Rightarrow>
          if name = [] then []
          else case fs (history_filename name) of
                 Some (Json d) \<Rightarrow> d
               | Some Unparsable \<Rightarrow> []
               | None \<Rightarrow> [])"

text \<open>
  \<^verbatim>\<open>
  def save_history(history, username=None):
      if not username:
          return # Guest mode, do not save to file
      filename = f"history_{username}.json"
      with open(filename, "w", encoding="utf-8") as f:
          json.dump(history, f, indent=2)
  \<close>
\<close>

text \<open>The result is the exception that leaves the function, if any, and the files.\<close>

definition save_history :: "(str, json_session) dict \<Rightarrow> str option \<Rightarrow> (str \<Rightarrow> write_result) \<Rightarrow>
    (str \<Rightarrow> file_content option) \<Rightarrow> exn option \<times> (str \<Rightarrow> file_content option)" where
  "save_history history u ow fs =
     (case u of
        None \<Rightarrow> (None, fs)
      | Some name \<Rightarrow>
          if name = [] then (None, fs)
          else (case ow (history_filename name) of
                  Written \<Rightarrow> (None, fs(history_filename name \<mapsto> Json history))
                | Open_raises e \<Rightarrow> (Some e, fs)
                | Dump_raises e \<Rightarrow> (Some e, fs(history_filename name \<mapsto> Unparsable))))"

subsection \<open>Starting a session and the sidebar\<close>

text \<open>
  \<^verbatim>\<open>
  if "full_history" not in st.session_state:
      if st.session_state.guest_mode:
          st.session_state.full_history = {} # Start fresh for guest
      else:
          st.session_state.full_history = load_history(st.session_state.username)
  if "current_session_id" not in st.session_state:
      st.session_state.current_session_id = str(uuid.uuid4())
  if "messages" not in st.session_state:
      st.session_state.messages = []
  \<close>
  The value of \<^verbatim>\<open>str(uuid.uuid4())\<close> is a parameter of every operation that draws one.
\<close>

definition init_app :: "str \<Rightarrow> (str \<Rightarrow> file_content option) \<Rightarrow> (str \<Rightarrow> write_result) \<Rightarrow>
    str option \<Rightarrow> bool \<Rightarrow> state" where
  "init_app uuid fs ow u guest =
     (case json_load (if guest then [] else load_history fs u) (\<lambda>r. []) 0 of
        (d, h, n) \<Rightarrow>
          \<lparr>files = fs, on_write = ow, heap = h(n := []), next_ref = Suc n, username = u,
           guest_mode = guest, full_history = d, current_session_id = uuid, messages = n\<rparr>)"

text \<open>\<^verbatim>\<open>st.session_state.messages = []\<close>: a new, empty list object.\<close>

definition new_list :: "state \<Rightarrow> state" where
  "new_list st =
     st\<lparr>heap := (heap st)(next_ref st := []), messages := next_ref st,
        next_ref := Suc (next_ref st)\<rparr>"

text \<open>\<^verbatim>\<open>st.session_state.messages.append(m)\<close>: the list object is changed in place.\<close>

definition append_message :: "message \<Rightarrow> state \<Rightarrow> state" where
  "append_message m st =
     st\<lparr>heap := (heap st)(messages st := heap st (messages st) @ [m])\<rparr>"

text \<open>
  \<^verbatim>\<open>
  if not st.session_state.guest_mode:
      save_history(st.session_state.full_history, st.session_state.username)
  \<close>
\<close>

definition write_through :: "state \<Rightarrow> exn option \<times> state" where
  "write_through st =
     (if \<not> guest_mode st
      then (case save_history (json_dump (heap st) (full_history st)) (username st)
                   (on_write st) (files st) of
              (r, fs) \<Rightarrow> (r, st\<lparr>files := fs\<rparr>))
      else (None, st))"

text \<open>
  \<^verbatim>\<open>
  if st.button("New Chat", ...):
       st.session_state.current_session_id = str(uuid.uuid4())
       st.session_state.messages = []
  \<close>
\<close>

definition new_chat :: "str \<Rightarrow> state \<Rightarrow> state" where
  "new_chat uuid st = new_list (st\<lparr>current_session_id := uuid\<rparr>)"

text \<open>
  \<^verbatim>\<open>
  sessions_list = []
  for sid, data in st.session_state.full_history.items():
      sessions_list.append({"id": sid, "title": data.get("title", "Untitled"),
                            "timestamp": data.get("timestamp", "")})
  ...
  for session in reversed(sessions_list):
  \<close>
  \<open>list_sessions\<close> is the sequence the sidebar shows, top to bottom.
\<close>

record listed =
  l_id :: str
  l_title :: str
  l_timestamp :: str

definition sessions_list :: "(str, session) dict \<Rightarrow> listed list" where
  "sessions_list d =
     map (\<lambda>(sid, data).
            \<lparr>l_id = sid,
             l_title = (case e_title data of None \<Rightarrow> lit ''Untitled'' | Some t \<Rightarrow> t),
             l_timestamp = (case e_timestamp data of None \<Rightarrow> [] | Some t \<Rightarrow> t)\<rparr>) d"

definition list_sessions :: "state \<Rightarrow> listed list" where
  "list_sessions st = rev (sessions_list (full_history st))"

text \<open>
  \<^verbatim>\<open>
  if st.button(label_title, key=session["id"], ...):
      st.session_state.current_session_id = session["id"]
      st.session_state.messages = st.session_state.full_history[session["id"]]["messages"]
  \<close>
\<close>

definition select_session :: "str \<Rightarrow> state \<Rightarrow> state option" where
  "select_session sid st =
     (case getitem (full_history st) sid of
        None \<Rightarrow> None
      | Some data \<Rightarrow> Some (st\<lparr>current_session_id := sid, messages := e_messages data\<rparr>))"

text \<open>
  \<^verbatim>\<open>
  if st.button("...", key=f"del_{session['id']}", help="Delete chat"):
      if session["id"] in st.session_state.full_history:
          del st.session_state.full_history[session["id"]]
          if not st.session_state.guest_mode:
              save_history(st.session_state.full_history, st.session_state.username)
          if st.session_state.current_session_id == session["id"]:
              st.session_state.current_session_id = str(uuid.uuid4())
              st.session_state.messages = []
          st.rerun()
  \<close>
  No \<^verbatim>\<open>try\<close> stands around the handler: an exception of \<^verbatim>\<open>del\<close> or of
  \<^verbatim>\<open>save_history\<close> leaves it at once, and the session state stays as the statements
  before it have made it. The result is what the handler raises, if anything, and the
  state it leaves.
\<close>

datatype uncaught = KeyError str | Failed exn

definition delete_session :: "str \<Rightarrow> str \<Rightarrow> state \<Rightarrow> uncaught option \<times> state" where
  "delete_session uuid sid st =
     (if contains (full_history st) sid then
        (case delitem (full_history st) sid of
           None \<Rightarrow> (Some (KeyError sid), st)
         | Some d \<Rightarrow>
             (case write_through (st\<lparr>full_history := d\<rparr>) of
                (Some e, st1) \<Rightarrow> (Some (Failed e), st1)
              | (None, st1) \<Rightarrow>
                  (None, if current_session_id st1 = sid
                         then new_list (st1\<lparr>current_session_id := uuid\<rparr>)
                         else st1)))
      else (None, st))"

subsection \<open>The chat turn\<close>

definition newline :: string where
  "newline = [CHR 0x0A]"

text \<open>The triple-quoted literal \<^verbatim>\<open>base_system_prompt\<close>, line by line.\<close>

definition base_system_prompt :: str where
  "base_system_prompt =
     lit (newline @ ''    You are a helpful and friendly Office Assistant AI.''
        @ newline @ ''    Answer questions based ONLY on the provided context below. ''
        @ newline @ ''    Keep answers short and professional.''
        @ newline @ ''    '')"

text \<open>\<^verbatim>\<open>full_system_prompt = f"{base_system_prompt}\n\nCONTEXT:\n{context}"\<close>\<close>

definition full_system_prompt :: "str \<Rightarrow> str" where
  "full_system_prompt context =
     base_system_prompt @ lit (newline @ newline @ ''CONTEXT:'' @ newline) @ context"

text \<open>\<^verbatim>\<open>sep.join(xs)\<close>\<close>

fun join :: "str \<Rightarrow> str list \<Rightarrow> str" where
  "join sep [] = []"
| "join sep [x] = x"
| "join sep (x # y # xs) = x @ sep @ join sep (y # xs)"

text \<open>
  \<^verbatim>\<open>
  context = ""
  if vector_db:
       try:
          docs = vector_db.similarity_search(prompt, k=4)
          context = "\n\n".join([d.page_content for d in docs])
       except:
          context = "" # Fallback if FAISS fails
  \<close>
  \<open>similarity_search\<close> is the vector store's search, which embeds the query through the
  embedding service; it returns the page contents of the documents found, or raises.
  The block stands inside the \<^verbatim>\<open>try\<close> of the turn, so its result type has room for an
  exception that gets out of it.
\<close>

definition retrieval_block ::
    "'db option \<Rightarrow> ('db \<Rightarrow> str \<Rightarrow> nat \<Rightarrow> exn + str list) \<Rightarrow> str \<Rightarrow> exn + str" where
  "retrieval_block vector_db similarity_search prompt =
     (case vector_db of
        None \<Rightarrow> Inr []
      | Some db \<Rightarrow>
          (case similarity_search db prompt 4 of
             Inr docs \<Rightarrow> Inr (join (lit (newline @ newline)) docs)
           | Inl e \<Rightarrow> Inr []))"

text \<open>
  \<^verbatim>\<open>
  gemini_history = []
  for m in st.session_state.messages[:-1]:
       role = "user" if m["role"] == "user" else "model"
       gemini_history.append({"role": role, "parts": [m["content"]]})
  \<close>
\<close>

record gemini_turn =
  g_role :: str
  parts :: "str list"

definition gemini_history :: "message list \<Rightarrow> gemini_turn list" where
  "gemini_history ms =
     map (\<lambda>m. \<lparr>g_role = (if role m = lit ''user'' then lit ''user'' else lit ''model''),
                 parts = [content m]\<rparr>) (butlast ms)"

text \<open>
  \<^verbatim>\<open>
  except Exception as e:
      if "429" in str(e):
           st.error("Too many requests! Please wait a moment.")
      else:
           st.error(f"An error occurred: {e}")
  \<close>
\<close>

datatype rendered = Error str | Markdown str | Markdown_then_error str str

definition error_text :: "exn \<Rightarrow> str" where
  "error_text e =
     (if sublist (lit ''429'') (str_of e)
      then lit ''Too many requests! Please wait a moment.''
      else lit ''An error occurred: '' @ str_of e)"

text \<open>
  The handler of the chat input, lines 530 to 587 of \<^verbatim>\<open>app.py\<close>. \<open>send_message\<close> is the
  completion service: the model built with the system instruction, \<^verbatim>\<open>start_chat\<close> with
  the history, \<^verbatim>\<open>send_message(prompt)\<close> and \<^verbatim>\<open>response.text\<close>; \<open>now\<close> is
  \<^verbatim>\<open>str(datetime.datetime.now())\<close>. The result is what the turn renders after the
  user's own message, and the state it leaves: an error message, the answer, or, when
  \<^verbatim>\<open>save_history\<close> raises after the answer has been rendered, the answer and then the
  error message of the \<^verbatim>\<open>except\<close> block.
  \<^verbatim>\<open>
  if prompt := st.chat_input("Type your question here..."):
      st.session_state.messages.append({"role": "user", "content": prompt})
      try:
          (retrieval block, full_system_prompt, gemini_history)
          response = chat_session.send_message(prompt)
          response_text = response.text
          st.session_state.messages.append({"role": "assistant", "content": response_text})
          session_title = get_session_title(st.session_state.messages)
          st.session_state.full_history[st.session_state.current_session_id] = {
              "title": session_title,
              "messages": st.session_state.messages,
              "timestamp": str(datetime.datetime.now())
          }
          if not st.session_state.guest_mode:
              save_history(st.session_state.full_history, st.session_state.username)
      except Exception as e:
          (error message)
  \<close>
\<close>

definition chat_input ::
    "'db option \<Rightarrow> ('db \<Rightarrow> str \<Rightarrow> nat \<Rightarrow> exn + str list) \<Rightarrow>
     (str \<Rightarrow> gemini_turn list \<Rightarrow> str \<Rightarrow> exn + str) \<Rightarrow> str \<Rightarrow> str \<Rightarrow> state \<Rightarrow>
     rendered option \<times> state" where
  "chat_input vector_db similarity_search send_message now prompt st =
     (if prompt = [] then (None, st)
      else
        let st1 = append_message \<lparr>role = lit ''user'', content = prompt\<rparr> st in
        case retrieval_block vector_db similarity_search prompt of
          Inl e \<Rightarrow> (Some (Error (error_text e)), st1)
        | Inr context \<Rightarrow>
            (case send_message (full_system_prompt context)
                    (gemini_history (heap st1 (messages st1))) prompt of
               Inl e \<Rightarrow> (Some (Error (error_text e)), st1)
             | Inr response_text \<Rightarrow>
                 let st2 = append_message \<lparr>role = lit ''assistant'', content = response_text\<rparr> st1;
                     session_title = get_session_title (heap st2 (messages st2));
                     st3 = st2\<lparr>full_history :=
                             setitem (full_history st2) (current_session_id st2)
                               \<lparr>e_title = Some session_title, e_messages = messages st2,
                                e_timestamp = Some now\<rparr>\<rparr>
                 in (case write_through st3 of
                       (None, st4) \<Rightarrow> (Some (Markdown response_text), st4)
                     | (Some e, st4) \<Rightarrow>
                         (Some (Markdown_then_error response_text (error_text e)), st4))))"

subsection \<open>Sequences of interactions\<close>

text \<open>
  One interaction of the user with the running application: a press of a button of the
  sidebar or a chat input, with what the environment answers during it. The buttons of
  a session exist only while the session is listed.
\<close>

datatype 'db event =
    New_chat str
  | Select str
  | Delete str str
  | Chat "'db option" "'db \<Rightarrow> str \<Rightarrow> nat \<Rightarrow> exn + str list"
         "str \<Rightarrow> gemini_turn list \<Rightarrow> str \<Rightarrow> exn + str" str str

fun handle :: "'db event \<Rightarrow> state \<Rightarrow> state" where
  "handle (New_chat uuid) st = new_chat uuid st"
| "handle (Select sid) st = (case select_session sid st of None \<Rightarrow> st | Some st' \<Rightarrow> st')"
| "handle (Delete uuid sid) st = snd (delete_session uuid sid st)"
| "handle (Chat vector_db similarity_search send_message now prompt) st =
     snd (chat_input vector_db similarity_search send_message now prompt st)"

fun run :: "'db event list \<Rightarrow> state \<Rightarrow> state" where
  "run [] st = st"
| "run (ev # evs) st = run evs (handle ev st)"

subsection \<open>Building and loading the vector index\<close>

text \<open>
  The library calls of the index pipeline, as parameters: each returns or raises.
  \<open>save_local\<close> is given what stands at \<^verbatim>\<open>faiss_index\<close> and answers what stands there
  afterwards, whether it raised or not; \<open>load_local\<close> is given what stands there.
  \<open>from_documents\<close> covers the construction of the embeddings client and the embedding
  of every text.
\<close>

record ('doc, 'db, 'art) langchain =
  TextLoader_load :: "str \<Rightarrow> exn + 'doc list"
  split_documents :: "nat \<Rightarrow> nat \<Rightarrow> 'doc list \<Rightarrow> exn + 'doc list"
  from_documents :: "'doc list \<Rightarrow> exn + 'db"
  save_local :: "'db \<Rightarrow> 'art option \<Rightarrow> exn option \<times> 'art option"
  load_local :: "'art option \<Rightarrow> exn + 'db"

text \<open>The two paths the pipeline touches: \<^verbatim>\<open>knowledge.txt\<close> and \<^verbatim>\<open>faiss_index\<close>.\<close>

record 'art disk =
  knowledge_txt :: "str option"
  faiss_index :: "'art option"

text \<open>
  The last \<^verbatim>\<open>try\<close> of \<^verbatim>\<open>load_faiss_index\<close>:
  \<^verbatim>\<open>
  try:
      embeddings = GoogleGenerativeAIEmbeddings(...)
      vector_db = FAISS.load_local("faiss_index", embeddings, ...)
      return vector_db
  except Exception as e:
      return None
  \<close>
\<close>

definition load_index :: "('doc, 'db, 'art) langchain \<Rightarrow> 'art disk \<Rightarrow> 'db option \<times> 'art disk" where
  "load_index lc d =
     (case load_local lc (faiss_index d) of
        Inl e \<Rightarrow> (None, d)
      | Inr vector_db \<Rightarrow> (Some vector_db, d))"

text \<open>
  \<^verbatim>\<open>load_faiss_index\<close> of \<^verbatim>\<open>app.py\<close>, the body that \<^verbatim>\<open>st.cache_resource\<close> runs once for
  the process:
  \<^verbatim>\<open>
  if not os.path.exists("faiss_index"):
      if os.path.exists("knowledge.txt"):
          try:
              documents = TextLoader("knowledge.txt", encoding="utf-8").load()
              text_splitter = RecursiveCharacterTextSplitter(chunk_size=1000, chunk_overlap=200)
              texts = text_splitter.split_documents(documents)
              embeddings = GoogleGenerativeAIEmbeddings(...)
              vector_db = FAISS.from_documents(texts, embeddings)
              vector_db.save_local("faiss_index")
          except Exception as e:
               print(f"Failed to build index: {e}")
               return None
      else:
          return None # No knowledge file
  (the last try)
  \<close>
\<close>

definition load_faiss_index :: "('doc, 'db, 'art) langchain \<Rightarrow> 'art disk \<Rightarrow> 'db option \<times> 'art disk" where
  "load_faiss_index lc d =
     (if faiss_index d = None then
        (case knowledge_txt d of
           None \<Rightarrow> (None, d)
         | Some text \<Rightarrow>
             (case TextLoader_load lc text of
                Inl e \<Rightarrow> (None, d)
              | Inr documents \<Rightarrow>
                  (case split_documents lc 1000 200 documents of
                     Inl e \<Rightarrow> (None, d)
                   | Inr texts \<Rightarrow>
                       (case from_documents lc texts of
                          Inl e \<Rightarrow> (None, d)
                        | Inr vector_db \<Rightarrow>
                            (case save_local lc vector_db (faiss_index d) of
                               (Some e, art) \<Rightarrow> (None, d\<lparr>faiss_index := art\<rparr>)
                             | (None, art) \<Rightarrow> load_index lc (d\<lparr>faiss_index := art\<rparr>))))))
      else load_index lc d)"

text \<open>
  \<^verbatim>\<open>create_vector_db\<close> of \<^verbatim>\<open>create_vector_db.py\<close>; nothing is caught, so the result is
  the exception that ends it, if any.
  \<^verbatim>\<open>
  if not os.path.exists(KNOWLEDGE_FILE):
      print(f"Error: {KNOWLEDGE_FILE} not found.")
      return
  documents = TextLoader(KNOWLEDGE_FILE, encoding="utf-8").load()
  text_splitter = RecursiveCharacterTextSplitter(chunk_size=1000, chunk_overlap=200)
  texts = text_splitter.split_documents(documents)
  embeddings = GoogleGenerativeAIEmbeddings(model="models/text-embedding-004")
  vector_db = FAISS.from_documents(texts, embeddings)
  vector_db.save_local(FAISS_INDEX_PATH)
  \<close>
\<close>

definition create_vector_db :: "('doc, 'db, 'art) langchain \<Rightarrow> 'art disk \<Rightarrow> exn option \<times> 'art disk" where
  "create_vector_db lc d =
     (case knowledge_txt d of
        None \<Rightarrow> (None, d)
      | Some text \<Rightarrow>
          (case TextLoader_load lc text of
             Inl e \<Rightarrow> (Some e, d)
           | Inr documents \<Rightarrow>
               (case split_documents lc 1000 200 documents of
                  Inl e \<Rightarrow> (Some e, d)
                | Inr texts \<Rightarrow>
                    (case from_documents lc texts of
                       Inl e \<Rightarrow> (Some e, d)
                     | Inr vector_db \<Rightarrow>
                         (case save_local lc vector_db (faiss_index d) of
                            (r, art) \<Rightarrow> (r, d\<lparr>faiss_index := art\<rparr>))))))"

section \<open>Concrete scenarios\<close>

text \<open>
  A state with two stored sessions, the first of them open, and the working directory
  that belongs to it.
\<close>

definition alice_files :: "str \<Rightarrow> file_content option" where
  "alice_files =
     Map.empty(history_filename (lit ''alice'') \<mapsto>
       Json [(lit ''s1'',
              \<lparr>j_title = Some (lit ''Where is the printer?...''),
               j_messages = [\<lparr>role = lit ''user'', content = lit ''Where is the printer?''\<rparr>,
                             \<lparr>role = lit ''assistant'', content = lit ''On floor 2.''\<rparr>],
               j_timestamp = Some (lit ''2024-01-01 10:00:00'')\<rparr>),
             (lit ''s2'',
              \<lparr>j_title = Some (lit ''Is there a kitchen?...''),
               j_messages = [\<lparr>role = lit ''user'', content = lit ''Is there a kitchen?''\<rparr>,
                             \<lparr>role = lit ''assistant'', content = lit ''On floor 2.''\<rparr>],
               j_timestamp = Some (lit ''2024-01-01 11:00:00'')\<rparr>)])"

definition st_two :: state where
  "st_two =
     \<lparr>files = alice_files, on_write = (\<lambda>path. Written),
      heap = (\<lambda>r. [])
        (0 := [\<lparr>role = lit ''user'', content = lit ''Where is the printer?''\<rparr>,
               \<lparr>role = lit ''assistant'', content = lit ''On floor 2.''\<rparr>],
         Suc 0 := [\<lparr>role = lit ''user'', content = lit ''Is there a kitchen?''\<rparr>,
               \<lparr>role = lit ''assistant'', content = lit ''On floor 2.''\<rparr>]),
      next_ref = Suc (Suc 0), username = Some (lit ''alice''), guest_mode = False,
      full_history =
        [(lit ''s1'', \<lparr>e_title = Some (lit ''Where is the printer?...''), e_messages = 0,
                        e_timestamp = Some (lit ''2024-01-01 10:00:00'')\<rparr>),
         (lit ''s2'', \<lparr>e_title = Some (lit ''Is there a kitchen?...''), e_messages = Suc 0,
                        e_timestamp = Some (lit ''2024-01-01 11:00:00'')\<rparr>)],
      current_session_id = lit ''s1'', messages = 0\<rparr>"

text \<open>
  A user whose name holds a slash: the path of the history lies in a directory that
  does not exist, and opening it for writing raises. \<open>st_slash\<close> is the state of that
  user after a first answered question.
\<close>

definition no_directory :: "str \<Rightarrow> write_result" where
  "no_directory path =
     (if path = history_filename (lit ''a/b'')
      then Open_raises (Exception (lit ''[Errno 2] No such file or directory''))
      else Written)"

definition st_slash :: state where
  "st_slash =
     \<lparr>files = Map.empty, on_write = no_directory,
      heap = (\<lambda>r. [])
        (0 := [\<lparr>role = lit ''user'', content = lit ''Where is the printer?''\<rparr>,
               \<lparr>role = lit ''assistant'', content = lit ''On floor 2.''\<rparr>]),
      next_ref = Suc 0, username = Some (lit ''a/b''), guest_mode = False,
      full_history =
        [(lit ''s1'', \<lparr>e_title = Some (lit ''Where is the printer?...''), e_messages = 0,
                        e_timestamp = Some (lit ''2024-01-01 10:00:00'')\<rparr>)],
      current_session_id = lit ''s1'', messages = 0\<rparr>"

text \<open>A vector store whose search always raises.\<close>

definition search_fails :: "str list \<Rightarrow> str \<Rightarrow> nat \<Rightarrow> exn + str list" where
  "search_fails db q k = Inl (Exception (lit ''embedding service unavailable''))"

text \<open>Library calls in which the embedding of the texts raises.\<close>

definition failing_embeddings :: "(str, str list, str list) langchain" where
  "failing_embeddings =
     \<lparr>TextLoader_load = (\<lambda>text. Inr [text]),
      split_documents = (\<lambda>chunk_size chunk_overlap documents. Inr documents),
      from_documents = (\<lambda>texts. Inl (Exception (lit ''429 quota exceeded''))),
      save_local = (\<lambda>vector_db art. (None, Some vector_db)),
      load_local = (\<lambda>art. case art of None \<Rightarrow> Inl (Exception (lit ''no such directory''))
                                | Some a \<Rightarrow> Inr a)\<rparr>"

text \<open>Two completion services: one that is rate limited, one that answers.\<close>

definition rate_limited :: "str \<Rightarrow> gemini_turn list \<Rightarrow> str \<Rightarrow> exn + str" where
  "rate_limited system_instruction history prompt =
     Inl (Exception (lit ''429 Resource has been exhausted''))"

definition answers :: "str \<Rightarrow> gemini_turn list \<Rightarrow> str \<Rightarrow> exn + str" where
  "answers system_instruction history prompt = Inr (lit ''On floor 2.'')"

text \<open>A working directory that holds the history of one user, \<^verbatim>\<open>bob\<close>.\<close>

definition bob_files :: "str \<Rightarrow> file_content option" where
  "bob_files =
     Map.empty(history_filename (lit ''bob'') \<mapsto>
       Json [(lit ''b1'',
              \<lparr>j_title = Some (lit ''When is the office open?...''),
               j_messages = [\<lparr>role = lit ''user'', content = lit ''When is the office open?''\<rparr>,
                             \<lparr>role = lit ''assistant'', content = lit ''From 9 to 5.''\<rparr>],
               j_timestamp = Some (lit ''2024-01-01 09:30:00'')\<rparr>)])"

section \<open>Session titles\<close>

lemma get_session_title_find:
  "get_session_title ms =
     (case find (\<lambda>m. role m = lit ''user'') ms of
        None \<Rightarrow> lit ''New Chat''
      | Some m \<Rightarrow> take 30 (content m) @ lit ''...'')"
  by (induction ms) simp_all

lemma get_session_title_append:
  "find (\<lambda>m. role m = lit ''user'') ms \<noteq> None \<Longrightarrow>
     get_session_title (ms @ later) = get_session_title ms"
  by (induction ms) auto

text \<open>
  Claim C6. The title of a session is the first 30 characters of its first message of
  role \<^verbatim>\<open>user\<close> followed by \<^verbatim>\<open>...\<close>, or \<^verbatim>\<open>New Chat\<close> when no message has that role. Once
  the session holds a user message, messages appended later do not change the title; a
  session that starts with the user message \<^verbatim>\<open>Where is the printer?\<close> has the title
  \<^verbatim>\<open>Where is the printer?...\<close> whatever follows.
\<close>

theorem session_title_stable:
  "get_session_title ms =
     (case find (\<lambda>m. role m = lit ''user'') ms of
        None \<Rightarrow> lit ''New Chat''
      | Some m \<Rightarrow> take 30 (content m) @ lit ''...'')
   \<and> (find (\<lambda>m. role m = lit ''user'') ms \<noteq> None \<longrightarrow>
        get_session_title (ms @ later) = get_session_title ms)
   \<and> get_session_title
        (\<lparr>role = lit ''user'', content = lit ''Where is the printer?''\<rparr> # later) =
      lit ''Where is the printer?...''"
proof (intro conjI impI)
  show "get_session_title ms =
     (case find (\<lambda>m. role m = lit ''user'') ms of
        None \<Rightarrow> lit ''New Chat''
      | Some m \<Rightarrow> take 30 (content m) @ lit ''...'')"
    by (rule get_session_title_find)
next
  assume "find (\<lambda>m. role m = lit ''user'') ms \<noteq> None"
  then show "get_session_title (ms @ later) = get_session_title ms"
    by (rule get_session_title_append)
next
  show "get_session_title
        (\<lparr>role = lit ''user'', content = lit ''Where is the printer?''\<rparr> # later) =
      lit ''Where is the printer?...''"
    by (simp add: lit_def)
qed

theorem session_title_stable_witness:
  "find (\<lambda>m. role m = lit ''user'')
     [\<lparr>role = lit ''assistant'', content = lit ''Hello''\<rparr>,
      \<lparr>role = lit ''user'', content = lit ''Which floor has the kitchen and the printer?''\<rparr>] \<noteq> None
   \<and> get_session_title
       ([\<lparr>role = lit ''assistant'', content = lit ''Hello''\<rparr>,
         \<lparr>role = lit ''user'', content = lit ''Which floor has the kitchen and the printer?''\<rparr>]
        @ [\<lparr>role = lit ''user'', content = lit ''Thanks''\<rparr>]) =
     lit ''Which floor has the kitchen an...''"
  using session_title_stable
    [of "[\<lparr>role = lit ''assistant'', content = lit ''Hello''\<rparr>,
          \<lparr>role = lit ''user'', content = lit ''Which floor has the kitchen and the printer?''\<rparr>]"
        "[\<lparr>role = lit ''user'', content = lit ''Thanks''\<rparr>]"]
  by (simp add: lit_def)

section \<open>Dictionaries and the helpers of the handlers\<close>

lemma contains_filter_neq: "\<not> contains (filter (\<lambda>(k', v). k' \<noteq> k) d) k"
  by (auto simp: contains_def)

lemma delitem_Some: "contains d k \<Longrightarrow> delitem d k = Some (filter (\<lambda>(k', v). k' \<noteq> k) d)"
  by (simp add: delitem_def)

lemma write_through_fields [simp]:
  "full_history (snd (write_through st)) = full_history st"
  "current_session_id (snd (write_through st)) = current_session_id st"
  "messages (snd (write_through st)) = messages st"
  "heap (snd (write_through st)) = heap st"
  "next_ref (snd (write_through st)) = next_ref st"
  "username (snd (write_through st)) = username st"
  "guest_mode (snd (write_through st)) = guest_mode st"
  "on_write (snd (write_through st)) = on_write st"
  by (simp_all add: write_through_def split: prod.splits)

text \<open>
  Whether the write-through raises depends on the identity and on the environment
  only, not on what is written.
\<close>

lemma save_history_raises:
  "fst (save_history doc u ow fs) =
     (case u of
        None \<Rightarrow> None
      | Some name \<Rightarrow>
          if name = [] then None
          else (case ow (history_filename name) of
                  Written \<Rightarrow> None
                | Open_raises e \<Rightarrow> Some e
                | Dump_raises e \<Rightarrow> Some e))"
  by (simp add: save_history_def split: option.splits write_result.splits)

lemma fst_write_through:
  "fst (write_through st) =
     (if guest_mode st then None
      else fst (save_history (json_dump (heap st) (full_history st)) (username st)
                  (on_write st) (files st)))"
  by (simp add: write_through_def split: prod.splits)

lemma files_write_through:
  "files (snd (write_through st)) =
     (if guest_mode st then files st
      else snd (save_history (json_dump (heap st) (full_history st)) (username st)
                  (on_write st) (files st)))"
  by (simp add: write_through_def split: prod.splits)

lemma write_through_raises:
  assumes "guest_mode st' = guest_mode st" and "username st' = username st"
    and "on_write st' = on_write st"
  shows "fst (write_through st') = fst (write_through st)"
  using assms by (simp add: fst_write_through save_history_raises)

lemma write_through_guest: "guest_mode st \<Longrightarrow> write_through st = (None, st)"
  by (simp add: write_through_def)

lemma snd_case_write_through:
  "snd (case write_through st of (None, st4) \<Rightarrow> (a, st4) | (Some e, st4) \<Rightarrow> (g e, st4)) =
     snd (write_through st)"
  by (simp split: prod.splits option.splits)

lemma new_list_fields [simp]:
  "full_history (new_list st) = full_history st"
  "current_session_id (new_list st) = current_session_id st"
  "messages (new_list st) = next_ref st"
  "heap (new_list st) = (heap st)(next_ref st := [])"
  "next_ref (new_list st) = Suc (next_ref st)"
  "username (new_list st) = username st"
  "guest_mode (new_list st) = guest_mode st"
  "files (new_list st) = files st"
  "on_write (new_list st) = on_write st"
  by (simp_all add: new_list_def)

lemma append_message_fields [simp]:
  "full_history (append_message m st) = full_history st"
  "current_session_id (append_message m st) = current_session_id st"
  "messages (append_message m st) = messages st"
  "heap (append_message m st) = (heap st)(messages st := heap st (messages st) @ [m])"
  "next_ref (append_message m st) = next_ref st"
  "username (append_message m st) = username st"
  "guest_mode (append_message m st) = guest_mode st"
  "files (append_message m st) = files st"
  "on_write (append_message m st) = on_write st"
  by (simp_all add: append_message_def)

lemma l_id_sessions_list: "map l_id (sessions_list d) = map fst d"
  by (induction d) (auto simp: sessions_list_def)

lemma l_id_list_sessions: "map l_id (list_sessions st) = rev (map fst (full_history st))"
  by (simp add: list_sessions_def l_id_sessions_list flip: rev_map)

lemma listed_iff_contains: "sid \<in> set (map l_id (list_sessions st)) \<longleftrightarrow> contains (full_history st) sid"
  by (simp only: l_id_list_sessions set_rev contains_def)

lemma delete_session_absent:
  "\<not> contains (full_history st) sid \<Longrightarrow> delete_session uuid sid st = (None, st)"
  by (simp add: delete_session_def)

lemma delete_session_present:
  assumes "contains (full_history st) sid"
  shows "delete_session uuid sid st =
     (case write_through (st\<lparr>full_history := filter (\<lambda>(k', v). k' \<noteq> sid) (full_history st)\<rparr>) of
        (Some e, st1) \<Rightarrow> (Some (Failed e), st1)
      | (None, st1) \<Rightarrow>
          (None, if current_session_id st = sid
                 then new_list (st1\<lparr>current_session_id := uuid\<rparr>)
                 else st1))"
proof -
  let ?st0 = "st\<lparr>full_history := filter (\<lambda>(k', v). k' \<noteq> sid) (full_history st)\<rparr>"
  obtain r st1 where w: "write_through ?st0 = (r, st1)"
    by (cases "write_through ?st0")
  have "current_session_id (snd (write_through ?st0)) = current_session_id st"
    by simp
  with w have "current_session_id st1 = current_session_id st"
    by simp
  with assms w show ?thesis
    by (cases r) (simp_all add: delete_session_def delitem_Some)
qed

lemma delete_session_history:
  "full_history (snd (delete_session uuid sid st)) =
     filter (\<lambda>(k', v). k' \<noteq> sid) (full_history st)"
proof (cases "contains (full_history st) sid")
  case True
  let ?st0 = "st\<lparr>full_history := filter (\<lambda>(k', v). k' \<noteq> sid) (full_history st)\<rparr>"
  obtain r st1 where w: "write_through ?st0 = (r, st1)"
    by (cases "write_through ?st0")
  have "full_history (snd (write_through ?st0)) =
        filter (\<lambda>(k', v). k' \<noteq> sid) (full_history st)"
    by simp
  with w have "full_history st1 = filter (\<lambda>(k', v). k' \<noteq> sid) (full_history st)"
    by simp
  with True w show ?thesis
    by (cases r) (simp_all add: delete_session_present)
next
  case False
  then have "filter (\<lambda>(k', v). k' \<noteq> sid) (full_history st) = full_history st"
    by (force simp: contains_def filter_id_conv)
  with False show ?thesis by (simp add: delete_session_absent)
qed

lemma delete_session_not_contains:
  "\<not> contains (full_history (snd (delete_session uuid sid st))) sid"
  by (simp only: delete_session_history contains_filter_neq not_False_eq_True)

lemma delete_session_returns:
  assumes "fst (write_through st) = None"
  shows "fst (delete_session uuid sid st) = None"
proof (cases "contains (full_history st) sid")
  case True
  have "fst (write_through (st\<lparr>full_history := filter (\<lambda>(k', v). k' \<noteq> sid) (full_history st)\<rparr>)) =
        fst (write_through st)"
    by (rule write_through_raises) simp_all
  with assms have "fst (write_through (st\<lparr>full_history := filter (\<lambda>(k', v). k' \<noteq> sid) (full_history st)\<rparr>)) = None"
    by simp
  then obtain st1 where
    "write_through (st\<lparr>full_history := filter (\<lambda>(k', v). k' \<noteq> sid) (full_history st)\<rparr>) = (None, st1)"
    by (cases "write_through (st\<lparr>full_history := filter (\<lambda>(k', v). k' \<noteq> sid) (full_history st)\<rparr>)") simp
  with True show ?thesis
    by (simp add: delete_session_present)
next
  case False
  then show ?thesis by (simp add: delete_session_absent)
qed

section \<open>Deleting a session\<close>

text \<open>
  Claim C9. Deleting is idempotent. Deleting a session id that the store does not hold
  raises nothing and leaves the whole state, the files included, as it was. After any
  delete, also one that \<^verbatim>\<open>save_history\<close> ended with an exception, the id is not among
  the listed sessions, and deleting the same id again raises nothing and changes
  nothing. A delete whose write-through does not raise returns without an exception.
\<close>

theorem delete_idempotent:
  "(\<not> contains (full_history st) sid \<longrightarrow> delete_session uuid sid st = (None, st))
   \<and> sid \<notin> set (map l_id (list_sessions (snd (delete_session uuid sid st))))
   \<and> delete_session uuid' sid (snd (delete_session uuid sid st)) =
       (None, snd (delete_session uuid sid st))
   \<and> (fst (write_through st) = None \<longrightarrow> fst (delete_session uuid sid st) = None)"
proof (intro conjI impI)
  show "delete_session uuid sid st = (None, st)" if "\<not> contains (full_history st) sid"
    using that by (rule delete_session_absent)
  have absent: "\<not> contains (full_history (snd (delete_session uuid sid st))) sid"
    by (rule delete_session_not_contains)
  then show "sid \<notin> set (map l_id (list_sessions (snd (delete_session uuid sid st))))"
    by (simp only: listed_iff_contains not_False_eq_True)
  from absent show "delete_session uuid' sid (snd (delete_session uuid sid st)) =
       (None, snd (delete_session uuid sid st))"
    by (rule delete_session_absent)
  show "fst (delete_session uuid sid st) = None" if "fst (write_through st) = None"
    using that by (rule delete_session_returns)
qed

theorem delete_idempotent_witness:
  "\<not> contains (full_history st_two) (lit ''s3'')
   \<and> delete_session (lit ''u1'') (lit ''s3'') st_two = (None, st_two)
   \<and> fst (write_through st_two) = None
   \<and> fst (delete_session (lit ''u1'') (lit ''s2'') st_two) = None
   \<and> lit ''s2'' \<notin> set (map l_id (list_sessions (snd (delete_session (lit ''u1'') (lit ''s2'') st_two))))"
proof -
  have a: "\<not> contains (full_history st_two) (lit ''s3'')"
    by (simp add: st_two_def contains_def lit_def)
  have w: "fst (write_through st_two) = None"
    by (simp add: write_through_def save_history_def st_two_def lit_def)
  from delete_idempotent [of st_two "lit ''s3''" "lit ''u1''" "lit ''u2''"]
    delete_idempotent [of st_two "lit ''s2''" "lit ''u1''" "lit ''u2''"] a w
  show ?thesis by blast
qed



section \<open>Retrieval\<close>

lemma getitem_setitem: "getitem (setitem d k v) k = Some v"
  by (induction d) (auto simp: getitem_def)

lemma retrieval_block_None: "retrieval_block None ss prompt = Inr []"
  by (simp add: retrieval_block_def)

lemma retrieval_block_total: "\<exists>context. retrieval_block vector_db ss prompt = Inr context"
  by (simp add: retrieval_block_def split: option.splits sum.splits)

lemma retrieval_block_failing:
  assumes "\<forall>db q k. \<exists>e. ss db q k = Inl e"
  shows "retrieval_block vector_db ss prompt = Inr []"
proof (cases vector_db)
  case None
  then show ?thesis by (simp add: retrieval_block_def)
next
  case (Some db)
  from assms obtain e where "ss db prompt 4 = Inl e" by blast
  with Some show ?thesis by (simp add: retrieval_block_def)
qed

text \<open>
  Claim C7. Retrieval degrades gracefully. The retrieval block never lets an exception
  out: it always yields a context string. Without a vector index the context is empty,
  and when the search (the embedding of the query included) raises on every call the
  context is empty too, and the chat turn runs exactly as it does without an index. The
  source has no sequence of passages apart from the joined context string, so the empty
  sequence of the claim is the empty context.
\<close>

theorem retrieval_degrades_gracefully:
  "(\<exists>context. retrieval_block vector_db ss prompt = Inr context)
   \<and> retrieval_block None ss prompt = Inr []
   \<and> ((\<forall>db q k. \<exists>e. ss db q k = Inl e) \<longrightarrow>
        retrieval_block vector_db ss prompt = Inr []
        \<and> chat_input vector_db ss send_message now prompt st =
            chat_input None ss send_message now prompt st)"
  using retrieval_block_total [of vector_db ss prompt]
  by (auto simp: retrieval_block_None retrieval_block_failing chat_input_def)

theorem retrieval_degrades_gracefully_witness:
  "(\<forall>db q k. \<exists>e. search_fails db q k = Inl e)
   \<and> retrieval_block (Some [lit ''The printer is on floor 2.'']) search_fails
        (lit ''Where is the printer?'') = Inr []"
  using retrieval_degrades_gracefully
    [of "Some [lit ''The printer is on floor 2.'']" search_fails "lit ''Where is the printer?''"]
  by (simp add: search_fails_def)

section \<open>The vector index\<close>

lemma load_index_disk: "snd (load_index lc d) = d"
  by (simp add: load_index_def split: sum.splits)

text \<open>
  Claim C4. Building the vector index is all-or-nothing. When the corpus is loaded and
  split and the embedding of the texts then raises, \<^verbatim>\<open>create_vector_db\<close> ends with that
  exception and \<^verbatim>\<open>load_faiss_index\<close> leaves the disk as it was: whatever stood at
  \<^verbatim>\<open>faiss_index\<close> before is untouched and \<^verbatim>\<open>save_local\<close> is never reached. When no
  index was persisted, \<^verbatim>\<open>load_faiss_index\<close> returns no index.
\<close>

theorem index_build_all_or_nothing:
  assumes "knowledge_txt d = Some corpus"
    and "TextLoader_load lc corpus = Inr documents"
    and "split_documents lc 1000 200 documents = Inr texts"
    and "from_documents lc texts = Inl e"
  shows "create_vector_db lc d = (Some e, d)
     \<and> snd (load_faiss_index lc d) = d
     \<and> (faiss_index d = None \<longrightarrow> load_faiss_index lc d = (None, d))"
proof (intro conjI impI)
  show "create_vector_db lc d = (Some e, d)"
    using assms by (simp add: create_vector_db_def)
  show "load_faiss_index lc d = (None, d)" if "faiss_index d = None"
    using assms that by (simp add: load_faiss_index_def)
  then show "snd (load_faiss_index lc d) = d"
    by (cases "faiss_index d") (simp_all add: load_faiss_index_def load_index_disk)
qed

theorem index_build_all_or_nothing_witness:
  "create_vector_db failing_embeddings
        \<lparr>knowledge_txt = Some (lit ''The printer is on floor 2.''),
         faiss_index = Some [lit ''An older index'']\<rparr> =
      (Some (Exception (lit ''429 quota exceeded'')),
       \<lparr>knowledge_txt = Some (lit ''The printer is on floor 2.''),
        faiss_index = Some [lit ''An older index'']\<rparr>)
   \<and> load_faiss_index failing_embeddings
        \<lparr>knowledge_txt = Some (lit ''The printer is on floor 2.''), faiss_index = None\<rparr> =
      (None, \<lparr>knowledge_txt = Some (lit ''The printer is on floor 2.''), faiss_index = None\<rparr>)"
  using index_build_all_or_nothing
    [of "\<lparr>knowledge_txt = Some (lit ''The printer is on floor 2.''),
          faiss_index = Some [lit ''An older index'']\<rparr>"
        "lit ''The printer is on floor 2.''" failing_embeddings
        "[lit ''The printer is on floor 2.'']" "[lit ''The printer is on floor 2.'']"
        "Exception (lit ''429 quota exceeded'')"]
    index_build_all_or_nothing
    [of "\<lparr>knowledge_txt = Some (lit ''The printer is on floor 2.''), faiss_index = None\<rparr>"
        "lit ''The printer is on floor 2.''" failing_embeddings
        "[lit ''The printer is on floor 2.'']" "[lit ''The printer is on floor 2.'']"
        "Exception (lit ''429 quota exceeded'')"]
  by (simp add: failing_embeddings_def)

section \<open>The chat turn\<close>

lemma gemini_history_snoc:
  "gemini_history (ms @ [m]) =
     map (\<lambda>m. \<lparr>g_role = (if role m = lit ''user'' then lit ''user'' else lit ''model''),
                 parts = [content m]\<rparr>) ms"
  by (simp add: gemini_history_def)

lemma chat_input_failure:
  assumes "prompt \<noteq> []"
    and "retrieval_block vector_db ss prompt = Inr context"
    and "send_message (full_system_prompt context)
           (gemini_history (heap st (messages st) @ [\<lparr>role = lit ''user'', content = prompt\<rparr>]))
           prompt = Inl e"
  shows "chat_input vector_db ss send_message now prompt st =
           (Some (Error (error_text e)),
            append_message \<lparr>role = lit ''user'', content = prompt\<rparr> st)"
  using assms by (simp add: chat_input_def Let_def)

lemma chat_input_success:
  assumes "prompt \<noteq> []"
    and "retrieval_block vector_db ss prompt = Inr context"
    and "send_message (full_system_prompt context)
           (gemini_history (heap st (messages st) @ [\<lparr>role = lit ''user'', content = prompt\<rparr>]))
           prompt = Inr response_text"
  shows "chat_input vector_db ss send_message now prompt st =
           (case write_through
              ((append_message \<lparr>role = lit ''assistant'', content = response_text\<rparr>
                 (append_message \<lparr>role = lit ''user'', content = prompt\<rparr> st))
               \<lparr>full_history :=
                  setitem (full_history st) (current_session_id st)
                    \<lparr>e_title = Some (get_session_title
                        (heap st (messages st) @
                          [\<lparr>role = lit ''user'', content = prompt\<rparr>,
                           \<lparr>role = lit ''assistant'', content = response_text\<rparr>])),
                     e_messages = messages st, e_timestamp = Some now\<rparr>\<rparr>) of
              (None, st4) \<Rightarrow> (Some (Markdown response_text), st4)
            | (Some e, st4) \<Rightarrow> (Some (Markdown_then_error response_text (error_text e)), st4))"
  using assms by (simp add: chat_input_def Let_def)

lemma chat_input_success_state:
  assumes "prompt \<noteq> []"
    and "retrieval_block vector_db ss prompt = Inr context"
    and "send_message (full_system_prompt context)
           (gemini_history (heap st (messages st) @ [\<lparr>role = lit ''user'', content = prompt\<rparr>]))
           prompt = Inr response_text"
  shows "snd (chat_input vector_db ss send_message now prompt st) =
           snd (write_through
              ((append_message \<lparr>role = lit ''assistant'', content = response_text\<rparr>
                 (append_message \<lparr>role = lit ''user'', content = prompt\<rparr> st))
               \<lparr>full_history :=
                  setitem (full_history st) (current_session_id st)
                    \<lparr>e_title = Some (get_session_title
                        (heap st (messages st) @
                          [\<lparr>role = lit ''user'', content = prompt\<rparr>,
                           \<lparr>role = lit ''assistant'', content = response_text\<rparr>])),
                     e_messages = messages st, e_timestamp = Some now\<rparr>\<rparr>))"
  using chat_input_success [of prompt vector_db ss "context" send_message st response_text now]
    assms
  by (simp split: prod.splits option.splits)

lemma chat_input_success_rendered:
  assumes "prompt \<noteq> []"
    and "retrieval_block vector_db ss prompt = Inr context"
    and "send_message (full_system_prompt context)
           (gemini_history (heap st (messages st) @ [\<lparr>role = lit ''user'', content = prompt\<rparr>]))
           prompt = Inr response_text"
  shows "fst (chat_input vector_db ss send_message now prompt st) =
           (case fst (write_through st) of
              None \<Rightarrow> Some (Markdown response_text)
            | Some e \<Rightarrow> Some (Markdown_then_error response_text (error_text e)))"
proof -
  let ?st3 = "(append_message \<lparr>role = lit ''assistant'', content = response_text\<rparr>
                 (append_message \<lparr>role = lit ''user'', content = prompt\<rparr> st))
               \<lparr>full_history :=
                  setitem (full_history st) (current_session_id st)
                    \<lparr>e_title = Some (get_session_title
                        (heap st (messages st) @
                          [\<lparr>role = lit ''user'', content = prompt\<rparr>,
                           \<lparr>role = lit ''assistant'', content = response_text\<rparr>])),
                     e_messages = messages st, e_timestamp = Some now\<rparr>\<rparr>"
  have "fst (write_through ?st3) = fst (write_through st)"
    by (rule write_through_raises) simp_all
  then show ?thesis
    using chat_input_success [of prompt vector_db ss "context" send_message st response_text now]
      assms
    by (simp split: prod.splits option.splits)
qed

lemma chat_input_system_instruction:
  assumes "retrieval_block vector_db ss prompt = Inr context"
  shows "chat_input vector_db ss send_message now prompt st =
         chat_input vector_db ss (\<lambda>system_instruction. send_message (full_system_prompt context))
           now prompt st"
  using assms by (simp add: chat_input_def Let_def)

text \<open>
  Claim C8. With neither \<^verbatim>\<open>knowledge.txt\<close> nor a persisted index, \<^verbatim>\<open>load_faiss_index\<close>
  returns no index and leaves the disk alone, the retrieved context is the empty string,
  and the only system instruction the turn sends to the completion service is the fixed
  text \<^verbatim>\<open>base_system_prompt\<close> with its \<^verbatim>\<open>CONTEXT:\<close> header, followed by that empty
  context. When the completion service answers, the message list gains the user and
  the assistant message and the session is stored under the current id; and when the
  write-through does not raise (a guest writes nothing), the turn succeeds: it renders
  the answer and no error.
\<close>

theorem empty_index_chat:
  assumes "knowledge_txt d = None" and "faiss_index d = None"
  shows "load_faiss_index lc d = (None, d)
     \<and> retrieval_block (fst (load_faiss_index lc d)) ss prompt = Inr []
     \<and> full_system_prompt [] = base_system_prompt @ lit (newline @ newline @ ''CONTEXT:'' @ newline)
     \<and> chat_input (fst (load_faiss_index lc d)) ss send_message now prompt st =
         chat_input None ss (\<lambda>system_instruction. send_message (full_system_prompt [])) now prompt st
     \<and> (prompt \<noteq> [] \<longrightarrow>
          send_message (full_system_prompt [])
            (gemini_history (heap st (messages st) @ [\<lparr>role = lit ''user'', content = prompt\<rparr>]))
            prompt = Inr response_text \<longrightarrow>
          heap (snd (chat_input (fst (load_faiss_index lc d)) ss send_message now prompt st)) (messages (snd (chat_input (fst (load_faiss_index lc d)) ss send_message now prompt st))) =
            heap st (messages st) @
              [\<lparr>role = lit ''user'', content = prompt\<rparr>,
               \<lparr>role = lit ''assistant'', content = response_text\<rparr>]
          \<and> getitem (full_history (snd (chat_input (fst (load_faiss_index lc d)) ss send_message now prompt st))) (current_session_id st) =
              Some \<lparr>e_title = Some (get_session_title
                       (heap st (messages st) @
                         [\<lparr>role = lit ''user'', content = prompt\<rparr>,
                          \<lparr>role = lit ''assistant'', content = response_text\<rparr>])),
                    e_messages = messages st, e_timestamp = Some now\<rparr>
          \<and> (fst (write_through st) = None \<longrightarrow> fst (chat_input (fst (load_faiss_index lc d)) ss send_message now prompt st) = Some (Markdown response_text))
          \<and> (guest_mode st \<longrightarrow> fst (chat_input (fst (load_faiss_index lc d)) ss send_message now prompt st) = Some (Markdown response_text)))"
proof -
  have load: "load_faiss_index lc d = (None, d)"
    using assms by (simp add: load_faiss_index_def)
  have ctx: "retrieval_block None ss prompt = Inr []"
    by (rule retrieval_block_None)
  have sys: "chat_input None ss send_message now prompt st =
         chat_input None ss (\<lambda>system_instruction. send_message (full_system_prompt [])) now prompt st"
    using ctx by (rule chat_input_system_instruction)
  have ok: "heap (snd (chat_input None ss send_message now prompt st)) (messages (snd (chat_input None ss send_message now prompt st))) =
            heap st (messages st) @
              [\<lparr>role = lit ''user'', content = prompt\<rparr>,
               \<lparr>role = lit ''assistant'', content = response_text\<rparr>]
          \<and> getitem (full_history (snd (chat_input None ss send_message now prompt st))) (current_session_id st) =
              Some \<lparr>e_title = Some (get_session_title
                       (heap st (messages st) @
                         [\<lparr>role = lit ''user'', content = prompt\<rparr>,
                          \<lparr>role = lit ''assistant'', content = response_text\<rparr>])),
                    e_messages = messages st, e_timestamp = Some now\<rparr>
          \<and> (fst (write_through st) = None \<longrightarrow> fst (chat_input None ss send_message now prompt st) = Some (Markdown response_text))
          \<and> (guest_mode st \<longrightarrow> fst (chat_input None ss send_message now prompt st) = Some (Markdown response_text))"
    if "prompt \<noteq> []"
      and "send_message (full_system_prompt [])
            (gemini_history (heap st (messages st) @ [\<lparr>role = lit ''user'', content = prompt\<rparr>]))
            prompt = Inr response_text"
    using chat_input_success_state [of prompt None ss "[]" send_message st response_text now]
      chat_input_success_rendered [of prompt None ss "[]" send_message st response_text now]
      that ctx
    by (simp add: getitem_setitem write_through_guest)
  show ?thesis
    using load ctx sys ok by (simp add: full_system_prompt_def)
qed

theorem empty_index_chat_witness:
  "knowledge_txt \<lparr>knowledge_txt = None, faiss_index = (None :: str list option)\<rparr> = None
   \<and> faiss_index \<lparr>knowledge_txt = None, faiss_index = (None :: str list option)\<rparr> = None
   \<and> lit ''Where is the printer?'' \<noteq> []
   \<and> fst (write_through st_two) = None
   \<and> fst (chat_input
          (fst (load_faiss_index failing_embeddings \<lparr>knowledge_txt = None, faiss_index = None\<rparr>))
          search_fails answers (lit ''2024-01-02 09:00:00'') (lit ''Where is the printer?'') st_two) =
        Some (Markdown (lit ''On floor 2.''))"
proof -
  have h1: "knowledge_txt \<lparr>knowledge_txt = None, faiss_index = (None :: str list option)\<rparr> = None"
    by simp
  have h2: "faiss_index \<lparr>knowledge_txt = None, faiss_index = (None :: str list option)\<rparr> = None"
    by simp
  have p: "lit ''Where is the printer?'' \<noteq> []"
    by (simp add: lit_def)
  have a: "answers (full_system_prompt [])
      (gemini_history (heap st_two (messages st_two) @
         [\<lparr>role = lit ''user'', content = lit ''Where is the printer?''\<rparr>]))
      (lit ''Where is the printer?'') = Inr (lit ''On floor 2.'')"
    by (simp add: answers_def)
  have w: "fst (write_through st_two) = None"
    by (simp add: write_through_def save_history_def st_two_def lit_def)
  from empty_index_chat [OF h1 h2, of failing_embeddings search_fails
      "lit ''Where is the printer?''" answers "lit ''2024-01-02 09:00:00''" st_two
      "lit ''On floor 2.''"] p a w
  have "fst (chat_input
          (fst (load_faiss_index failing_embeddings \<lparr>knowledge_txt = None, faiss_index = None\<rparr>))
          search_fails answers (lit ''2024-01-02 09:00:00'') (lit ''Where is the printer?'') st_two) =
        Some (Markdown (lit ''On floor 2.''))"
    by blast
  with h1 h2 p w show ?thesis by blast
qed

text \<open>
  Claim C1, as amended. When the completion service raises, the turn renders an error
  message and performs no upsert and no write: the files, the history dictionary and
  the current session id are as before the turn. The user message appended at the
  start of the turn is not taken back: it stays at the end of the message list, which
  is the very list a stored session refers to.
\<close>

theorem failed_completion_keeps_store:
  assumes "prompt \<noteq> []"
    and "retrieval_block vector_db ss prompt = Inr context"
    and "send_message (full_system_prompt context)
           (gemini_history (heap st (messages st) @ [\<lparr>role = lit ''user'', content = prompt\<rparr>]))
           prompt = Inl e"
  shows "\<exists>st'. chat_input vector_db ss send_message now prompt st = (Some (Error (error_text e)), st')
     \<and> files st' = files st
     \<and> full_history st' = full_history st
     \<and> current_session_id st' = current_session_id st
     \<and> messages st' = messages st
     \<and> heap st' = (heap st)(messages st :=
                       heap st (messages st) @ [\<lparr>role = lit ''user'', content = prompt\<rparr>])"
  using chat_input_failure [of prompt vector_db ss "context" send_message st e now] assms
  by simp

theorem failed_completion_keeps_store_witness:
  "lit ''And the kitchen?'' \<noteq> []
   \<and> retrieval_block None search_fails (lit ''And the kitchen?'') = Inr []
   \<and> rate_limited (full_system_prompt [])
        (gemini_history (heap st_two (messages st_two) @
           [\<lparr>role = lit ''user'', content = lit ''And the kitchen?''\<rparr>]))
        (lit ''And the kitchen?'') = Inl (Exception (lit ''429 Resource has been exhausted''))
   \<and> (\<exists>st'. chat_input None search_fails rate_limited (lit ''2024-01-02 09:00:00'')
               (lit ''And the kitchen?'') st_two =
             (Some (Error (lit ''Too many requests! Please wait a moment.'')), st')
          \<and> files st' = files st_two \<and> full_history st' = full_history st_two)"
proof -
  have p: "lit ''And the kitchen?'' \<noteq> []"
    by (simp add: lit_def)
  have c: "retrieval_block None search_fails (lit ''And the kitchen?'') = Inr []"
    by (rule retrieval_block_None)
  have f: "rate_limited (full_system_prompt [])
        (gemini_history (heap st_two (messages st_two) @
           [\<lparr>role = lit ''user'', content = lit ''And the kitchen?''\<rparr>]))
        (lit ''And the kitchen?'') = Inl (Exception (lit ''429 Resource has been exhausted''))"
    by (simp add: rate_limited_def)
  have t: "error_text (Exception (lit ''429 Resource has been exhausted'')) =
      lit ''Too many requests! Please wait a moment.''"
    unfolding error_text_def lit_def by code_simp
  from failed_completion_keeps_store
      [of "lit ''And the kitchen?''" None search_fails "[]" rate_limited st_two
          "Exception (lit ''429 Resource has been exhausted'')" "lit ''2024-01-02 09:00:00''"]
    p c f
  show ?thesis unfolding t by blast
qed

text \<open>
  The claim as stated fails: after a rate-limited turn in the open session of
  \<open>st_two\<close> the message list is not what it was before the turn.
\<close>

theorem failed_completion_counterexample:
  "fst (chat_input None search_fails rate_limited (lit ''2024-01-02 09:00:00'')
          (lit ''And the kitchen?'') st_two) =
     Some (Error (lit ''Too many requests! Please wait a moment.''))
   \<and> heap (snd (chat_input None search_fails rate_limited (lit ''2024-01-02 09:00:00'')
                  (lit ''And the kitchen?'') st_two))
          (messages (snd (chat_input None search_fails rate_limited (lit ''2024-01-02 09:00:00'')
                  (lit ''And the kitchen?'') st_two)))
      \<noteq> heap st_two (messages st_two)"
proof -
  have p: "lit ''And the kitchen?'' \<noteq> []"
    by (simp add: lit_def)
  have c: "retrieval_block None search_fails (lit ''And the kitchen?'') = Inr []"
    by (rule retrieval_block_None)
  have f: "rate_limited (full_system_prompt [])
        (gemini_history (heap st_two (messages st_two) @
           [\<lparr>role = lit ''user'', content = lit ''And the kitchen?''\<rparr>]))
        (lit ''And the kitchen?'') = Inl (Exception (lit ''429 Resource has been exhausted''))"
    by (simp add: rate_limited_def)
  have t: "error_text (Exception (lit ''429 Resource has been exhausted'')) =
      lit ''Too many requests! Please wait a moment.''"
    unfolding error_text_def lit_def by code_simp
  have r: "chat_input None search_fails rate_limited (lit ''2024-01-02 09:00:00'')
          (lit ''And the kitchen?'') st_two =
        (Some (Error (lit ''Too many requests! Please wait a moment.'')),
         append_message \<lparr>role = lit ''user'', content = lit ''And the kitchen?''\<rparr> st_two)"
    using chat_input_failure
      [of "lit ''And the kitchen?''" None search_fails "[]" rate_limited st_two
          "Exception (lit ''429 Resource has been exhausted'')" "lit ''2024-01-02 09:00:00''"] p c f
    unfolding t by simp
  show ?thesis
    unfolding r by simp
qed

text \<open>
  The message that stayed behind reaches the durable artifact with the next
  write-through, here the deletion of another session.
\<close>

lemma failed_turn_persisted_by_later_write:
  "load_history
     (files (run [Chat None search_fails rate_limited (lit ''2024-01-02 09:00:00'')
                    (lit ''And the kitchen?''),
                  Delete (lit ''u1'') (lit ''s2'')] st_two))
     (Some (lit ''alice'')) =
   [(lit ''s1'',
     \<lparr>j_title = Some (lit ''Where is the printer?...''),
      j_messages = [\<lparr>role = lit ''user'', content = lit ''Where is the printer?''\<rparr>,
                    \<lparr>role = lit ''assistant'', content = lit ''On floor 2.''\<rparr>,
                    \<lparr>role = lit ''user'', content = lit ''And the kitchen?''\<rparr>],
      j_timestamp = Some (lit ''2024-01-01 10:00:00'')\<rparr>)]"
proof -
  have p: "lit ''And the kitchen?'' \<noteq> []"
    by (simp add: lit_def)
  have c: "retrieval_block None search_fails (lit ''And the kitchen?'') = Inr []"
    by (rule retrieval_block_None)
  have f: "rate_limited (full_system_prompt [])
        (gemini_history (heap st_two (messages st_two) @
           [\<lparr>role = lit ''user'', content = lit ''And the kitchen?''\<rparr>]))
        (lit ''And the kitchen?'') = Inl (Exception (lit ''429 Resource has been exhausted''))"
    by (simp add: rate_limited_def)
  have s2: "contains (full_history st_two) (lit ''s2'')"
    by (simp add: st_two_def contains_def)
  have neq: "lit ''s1'' \<noteq> lit ''s2''" "lit ''alice'' \<noteq> []"
    by (simp_all add: lit_def)
  have r: "snd (chat_input None search_fails rate_limited (lit ''2024-01-02 09:00:00'')
          (lit ''And the kitchen?'') st_two) =
        append_message \<lparr>role = lit ''user'', content = lit ''And the kitchen?''\<rparr> st_two"
    using chat_input_failure
      [of "lit ''And the kitchen?''" None search_fails "[]" rate_limited st_two
          "Exception (lit ''429 Resource has been exhausted'')" "lit ''2024-01-02 09:00:00''"] p c f
    by simp
  show ?thesis
    using neq
    by (simp add: r delete_session_present s2 Let_def)
       (simp add: st_two_def write_through_def save_history_def load_history_def json_dump_def)
qed

section \<open>The order of the listed sessions\<close>

lemma keys_setitem:
  "map fst (setitem d k v) = (if contains d k then map fst d else map fst d @ [k])"
  by (induction d) (force simp: contains_def)+

lemma l_id_list_sessions_turn:
  assumes "prompt \<noteq> []"
    and "retrieval_block vector_db ss prompt = Inr context"
    and "send_message (full_system_prompt context)
           (gemini_history (heap st (messages st) @ [\<lparr>role = lit ''user'', content = prompt\<rparr>]))
           prompt = Inr response_text"
  shows "map l_id (list_sessions (snd (chat_input vector_db ss send_message now prompt st))) =
           rev (map fst (setitem (full_history st) (current_session_id st)
             \<lparr>e_title = Some (get_session_title
                 (heap st (messages st) @
                   [\<lparr>role = lit ''user'', content = prompt\<rparr>,
                    \<lparr>role = lit ''assistant'', content = response_text\<rparr>])),
              e_messages = messages st, e_timestamp = Some now\<rparr>))"
  using chat_input_success_state
      [of prompt vector_db ss "context" send_message st response_text now] assms
  by (simp add: l_id_list_sessions)

text \<open>
  Claim C2, as amended. The sidebar lists the sessions in reverse order of insertion.
  After a successful turn in a session whose id the store did not hold, that session is
  listed first, before the sessions listed until then; after a successful turn in a
  session the store already held, the listed ids stand in the same order as before.
\<close>

theorem list_sessions_reverse_insertion_order:
  assumes "prompt \<noteq> []"
    and "retrieval_block vector_db ss prompt = Inr context"
    and "send_message (full_system_prompt context)
           (gemini_history (heap st (messages st) @ [\<lparr>role = lit ''user'', content = prompt\<rparr>]))
           prompt = Inr response_text"
  shows "map l_id (list_sessions (snd (chat_input vector_db ss send_message now prompt st))) =
           (if contains (full_history st) (current_session_id st)
            then map l_id (list_sessions st)
            else current_session_id st # map l_id (list_sessions st))"
  using l_id_list_sessions_turn [of prompt vector_db ss "context" send_message st response_text now]
    assms
  by (simp add: keys_setitem l_id_list_sessions)

theorem list_sessions_reverse_insertion_order_witness:
  "lit ''Where is the lift?'' \<noteq> []
   \<and> \<not> contains (full_history (new_chat (lit ''s3'') st_two))
         (current_session_id (new_chat (lit ''s3'') st_two))
   \<and> map l_id (list_sessions (snd (chat_input None search_fails answers
         (lit ''2024-01-02 09:00:00'') (lit ''Where is the lift?'') (new_chat (lit ''s3'') st_two)))) =
       [lit ''s3'', lit ''s2'', lit ''s1'']"
proof -
  have p: "lit ''Where is the lift?'' \<noteq> []"
    by (simp add: lit_def)
  have c: "retrieval_block None search_fails (lit ''Where is the lift?'') = Inr []"
    by (rule retrieval_block_None)
  have a: "answers (full_system_prompt [])
      (gemini_history (heap (new_chat (lit ''s3'') st_two) (messages (new_chat (lit ''s3'') st_two)) @
         [\<lparr>role = lit ''user'', content = lit ''Where is the lift?''\<rparr>]))
      (lit ''Where is the lift?'') = Inr (lit ''On floor 2.'')"
    by (simp add: answers_def)
  have n: "\<not> contains (full_history (new_chat (lit ''s3'') st_two))
         (current_session_id (new_chat (lit ''s3'') st_two))"
    by (simp add: new_chat_def st_two_def contains_def lit_def)
  have l: "map l_id (list_sessions (new_chat (lit ''s3'') st_two)) = [lit ''s2'', lit ''s1'']"
    by (simp add: l_id_list_sessions new_chat_def st_two_def)
  have i: "current_session_id (new_chat (lit ''s3'') st_two) = lit ''s3''"
    by (simp add: new_chat_def)
  from list_sessions_reverse_insertion_order
      [of "lit ''Where is the lift?''" None search_fails "[]" answers
          "new_chat (lit ''s3'') st_two" "lit ''On floor 2.''" "lit ''2024-01-02 09:00:00''"]
    p c a n l i
  show ?thesis by simp
qed

text \<open>
  The claim as stated fails: in \<open>st_two\<close> the open session \<^verbatim>\<open>s1\<close> is the older one; a
  successful turn updates it, and the sidebar still lists \<^verbatim>\<open>s2\<close> first.
\<close>

theorem most_recent_first_counterexample:
  "fst (chat_input None search_fails answers (lit ''2024-01-02 09:00:00'')
          (lit ''And the kitchen?'') st_two) = Some (Markdown (lit ''On floor 2.''))
   \<and> hd (map l_id (list_sessions (snd (chat_input None search_fails answers
         (lit ''2024-01-02 09:00:00'') (lit ''And the kitchen?'') st_two)))) \<noteq>
       current_session_id st_two
   \<and> map l_id (list_sessions (snd (chat_input None search_fails answers
         (lit ''2024-01-02 09:00:00'') (lit ''And the kitchen?'') st_two))) =
       [lit ''s2'', lit ''s1'']"
proof -
  have p: "lit ''And the kitchen?'' \<noteq> []"
    by (simp add: lit_def)
  have c: "retrieval_block None search_fails (lit ''And the kitchen?'') = Inr []"
    by (rule retrieval_block_None)
  have a: "answers (full_system_prompt [])
      (gemini_history (heap st_two (messages st_two) @
         [\<lparr>role = lit ''user'', content = lit ''And the kitchen?''\<rparr>]))
      (lit ''And the kitchen?'') = Inr (lit ''On floor 2.'')"
    by (simp add: answers_def)
  have w: "fst (write_through st_two) = None"
    by (simp add: write_through_def save_history_def st_two_def lit_def)
  have r: "fst (chat_input None search_fails answers (lit ''2024-01-02 09:00:00'')
          (lit ''And the kitchen?'') st_two) = Some (Markdown (lit ''On floor 2.''))"
    using chat_input_success_rendered
      [of "lit ''And the kitchen?''" None search_fails "[]" answers st_two
          "lit ''On floor 2.''" "lit ''2024-01-02 09:00:00''"] p c a w
    by simp
  have l: "map l_id (list_sessions (snd (chat_input None search_fails answers
         (lit ''2024-01-02 09:00:00'') (lit ''And the kitchen?'') st_two))) =
       [lit ''s2'', lit ''s1'']"
    using l_id_list_sessions_turn
      [of "lit ''And the kitchen?''" None search_fails "[]" answers st_two
          "lit ''On floor 2.''" "lit ''2024-01-02 09:00:00''"] p c a
    by (simp add: st_two_def)
  have "current_session_id st_two = lit ''s1''"
    by (simp add: st_two_def)
  moreover have "lit ''s2'' \<noteq> lit ''s1''"
    by (simp add: lit_def)
  ultimately show ?thesis using r l by simp
qed

section \<open>Isolation of identities\<close>

lemma history_filename_inj: "history_filename a = history_filename b \<longleftrightarrow> a = b"
  by (simp add: history_filename_def)

lemma save_history_other:
  "u \<noteq> Some b \<Longrightarrow>
     snd (save_history h u ow fs) (history_filename b) = fs (history_filename b)"
  by (cases u)
     (simp_all add: save_history_def history_filename_inj split: write_result.splits)

lemma write_through_other:
  "username st \<noteq> Some b \<Longrightarrow>
     files (snd (write_through st)) (history_filename b) = files st (history_filename b)"
  by (simp add: files_write_through save_history_other)

lemma delete_session_username: "username (snd (delete_session uuid sid st)) = username st"
proof (cases "contains (full_history st) sid")
  case True
  let ?st0 = "st\<lparr>full_history := filter (\<lambda>(k', v). k' \<noteq> sid) (full_history st)\<rparr>"
  obtain r st1 where w: "write_through ?st0 = (r, st1)"
    by (cases "write_through ?st0")
  have "username (snd (write_through ?st0)) = username st"
    by simp
  with w have "username st1 = username st"
    by simp
  with True w show ?thesis
    by (cases r) (simp_all add: delete_session_present)
next
  case False
  then show ?thesis by (simp add: delete_session_absent)
qed

lemma delete_session_other_file:
  assumes "username st \<noteq> Some b"
  shows "files (snd (delete_session uuid sid st)) (history_filename b) =
           files st (history_filename b)"
proof (cases "contains (full_history st) sid")
  case True
  let ?st0 = "st\<lparr>full_history := filter (\<lambda>(k', v). k' \<noteq> sid) (full_history st)\<rparr>"
  obtain r st1 where w: "write_through ?st0 = (r, st1)"
    by (cases "write_through ?st0")
  have "files (snd (write_through ?st0)) (history_filename b) = files ?st0 (history_filename b)"
    using assms by (intro write_through_other) simp
  with w have "files st1 (history_filename b) = files st (history_filename b)"
    by simp
  with True w show ?thesis
    by (cases r) (simp_all add: delete_session_present)
next
  case False
  then show ?thesis by (simp add: delete_session_absent)
qed

lemma chat_input_username:
  "username (snd (chat_input vector_db ss send_message now prompt st)) = username st"
  by (simp add: chat_input_def Let_def snd_case_write_through split: sum.splits)

lemma chat_input_other_file:
  assumes "username st \<noteq> Some b"
  shows "files (snd (chat_input vector_db ss send_message now prompt st)) (history_filename b) =
           files st (history_filename b)"
  using assms
  by (simp add: chat_input_def Let_def snd_case_write_through write_through_other
      split: sum.splits)

lemma handle_username: "username (handle ev st) = username st"
proof (cases ev)
  case (New_chat uuid)
  then show ?thesis by (simp add: new_chat_def)
next
  case (Select sid)
  then show ?thesis by (simp add: select_session_def split: option.splits)
next
  case (Delete uuid sid)
  then show ?thesis by (simp add: delete_session_username)
next
  case (Chat vector_db ss send_message now prompt)
  then show ?thesis by (simp add: chat_input_username)
qed

lemma handle_other_file:
  assumes "username st \<noteq> Some b"
  shows "files (handle ev st) (history_filename b) = files st (history_filename b)"
proof (cases ev)
  case (New_chat uuid)
  then show ?thesis by (simp add: new_chat_def)
next
  case (Select sid)
  then show ?thesis by (simp add: select_session_def split: option.splits)
next
  case (Delete uuid sid)
  then show ?thesis using assms by (simp add: delete_session_other_file)
next
  case (Chat vector_db ss send_message now prompt)
  then show ?thesis using assms by (simp add: chat_input_other_file)
qed

lemma run_username: "username (run evs st) = username st"
  by (induction evs arbitrary: st) (simp_all add: handle_username)

lemma run_other_file:
  "username st \<noteq> Some b \<Longrightarrow>
     files (run evs st) (history_filename b) = files st (history_filename b)"
  by (induction evs arbitrary: st) (simp_all add: handle_username handle_other_file)

lemma init_app_fields:
  "username (init_app uuid fs ow u guest) = u"
  "files (init_app uuid fs ow u guest) = fs"
  by (simp_all add: init_app_def split: prod.splits)

lemma load_history_cong:
  "fs' (history_filename b) = fs (history_filename b) \<Longrightarrow>
     load_history fs' (Some b) = load_history fs (Some b)"
  by (simp add: load_history_def)

lemma init_app_cong:
  "load_history fs' u = load_history fs u \<Longrightarrow>
     init_app uuid fs' ow u guest = (init_app uuid fs ow u guest)\<lparr>files := fs'\<rparr>"
  by (simp add: init_app_def split: prod.splits)

text \<open>
  Claim C5. Identities are isolated. The files are keyed by their exact path, and the
  path of a history is \<^verbatim>\<open>history_<username>.json\<close>, one per identity. Whatever a session
  of identity \<open>a\<close> does (chat turns, new chats, selections, deletions, in any number and
  order), the history file of any other identity \<open>b\<close> is left as it was; so a session
  that \<open>b\<close> starts afterwards loads the same history, lists the same sessions and holds
  the same state (up to the files of other identities) as if \<open>a\<close> had done nothing.
\<close>

theorem identity_isolation:
  assumes "a \<noteq> b"
  shows "files (run evs (init_app uuid fs ow (Some a) guest)) (history_filename b) =
           fs (history_filename b)
     \<and> load_history (files (run evs (init_app uuid fs ow (Some a) guest))) (Some b) =
         load_history fs (Some b)
     \<and> init_app uuid' (files (run evs (init_app uuid fs ow (Some a) guest))) ow' (Some b) guest' =
         (init_app uuid' fs ow' (Some b) guest')
           \<lparr>files := files (run evs (init_app uuid fs ow (Some a) guest))\<rparr>
     \<and> list_sessions
         (init_app uuid' (files (run evs (init_app uuid fs ow (Some a) guest))) ow' (Some b) guest') =
         list_sessions (init_app uuid' fs ow' (Some b) guest')"
proof -
  let ?fs' = "files (run evs (init_app uuid fs ow (Some a) guest))"
  have "username (init_app uuid fs ow (Some a) guest) \<noteq> Some b"
    using assms by (simp add: init_app_fields)
  then have same: "?fs' (history_filename b) = fs (history_filename b)"
    by (simp add: run_other_file init_app_fields)
  then have load: "load_history ?fs' (Some b) = load_history fs (Some b)"
    by (rule load_history_cong)
  then have init: "init_app uuid' ?fs' ow' (Some b) guest' =
      (init_app uuid' fs ow' (Some b) guest')\<lparr>files := ?fs'\<rparr>"
    by (rule init_app_cong)
  then have "list_sessions (init_app uuid' ?fs' ow' (Some b) guest') =
      list_sessions (init_app uuid' fs ow' (Some b) guest')"
    by (simp add: list_sessions_def)
  with same load init show ?thesis by simp
qed

theorem identity_isolation_witness:
  "lit ''alice'' \<noteq> lit ''bob''
   \<and> files (run [Chat None search_fails answers (lit ''2024-01-02 09:00:00'')
                    (lit ''Where is the printer?'')]
               (init_app (lit ''s1'') bob_files (\<lambda>path. Written) (Some (lit ''alice'')) False))
         (history_filename (lit ''alice'')) =
       Some (Json [(lit ''s1'',
              \<lparr>j_title = Some (lit ''Where is the printer?...''),
               j_messages = [\<lparr>role = lit ''user'', content = lit ''Where is the printer?''\<rparr>,
                             \<lparr>role = lit ''assistant'', content = lit ''On floor 2.''\<rparr>],
               j_timestamp = Some (lit ''2024-01-02 09:00:00'')\<rparr>)])
   \<and> map l_id (list_sessions
         (init_app (lit ''s2'')
            (files (run [Chat None search_fails answers (lit ''2024-01-02 09:00:00'')
                           (lit ''Where is the printer?'')]
                      (init_app (lit ''s1'') bob_files (\<lambda>path. Written) (Some (lit ''alice'')) False)))
            (\<lambda>path. Written) (Some (lit ''bob'')) False)) = [lit ''b1'']"
proof -
  have ne: "lit ''alice'' \<noteq> lit ''bob''"
    by (simp add: lit_def)
  have alice: "lit ''alice'' \<noteq> []"
    by (simp add: lit_def)
  have empty: "load_history bob_files (Some (lit ''alice'')) = []"
    using ne by (simp add: load_history_def bob_files_def history_filename_inj)
  have init: "init_app (lit ''s1'') bob_files (\<lambda>path. Written) (Some (lit ''alice'')) False =
      \<lparr>files = bob_files, on_write = (\<lambda>path. Written), heap = (\<lambda>r. [])(0 := []), next_ref = Suc 0,
       username = Some (lit ''alice''), guest_mode = False, full_history = [],
       current_session_id = lit ''s1'', messages = 0\<rparr>"
    by (simp add: init_app_def empty)
  have p: "lit ''Where is the printer?'' \<noteq> []"
    by (simp add: lit_def)
  have c: "retrieval_block None search_fails (lit ''Where is the printer?'') = Inr []"
    by (rule retrieval_block_None)
  have written: "files (run [Chat None search_fails answers (lit ''2024-01-02 09:00:00'')
                    (lit ''Where is the printer?'')]
               (init_app (lit ''s1'') bob_files (\<lambda>path. Written) (Some (lit ''alice'')) False))
         (history_filename (lit ''alice'')) =
       Some (Json [(lit ''s1'',
              \<lparr>j_title = Some (lit ''Where is the printer?...''),
               j_messages = [\<lparr>role = lit ''user'', content = lit ''Where is the printer?''\<rparr>,
                             \<lparr>role = lit ''assistant'', content = lit ''On floor 2.''\<rparr>],
               j_timestamp = Some (lit ''2024-01-02 09:00:00'')\<rparr>)])"
    by (simp add: chat_input_success
          [of "lit ''Where is the printer?''" None search_fails "[]" answers _
              "lit ''On floor 2.''"] p c answers_def)
       (simp add: init write_through_def save_history_def json_dump_def alice, simp add: lit_def)
  have bob: "map l_id (list_sessions (init_app (lit ''s2'') bob_files (\<lambda>path. Written) (Some (lit ''bob'')) False)) =
      [lit ''b1'']"
    by (simp add: l_id_list_sessions init_app_def load_history_def bob_files_def lit_def)
  from identity_isolation [OF ne, of
      "[Chat None search_fails answers (lit ''2024-01-02 09:00:00'') (lit ''Where is the printer?'')]"
      "lit ''s1''" bob_files "\<lambda>path. Written" False "lit ''s2''" "\<lambda>path. Written" False]
    ne written bob
  show ?thesis by (simp add: l_id_list_sessions)
qed

section \<open>Writing a history and reading it back\<close>

text \<open>
  What \<^verbatim>\<open>json.load\<close> builds from a document dumps back to the same document, and a
  history that was saved under a name is the history loaded under that name.
\<close>

lemma json_load_heap_below:
  "json_load d h n = (d', h', n') \<Longrightarrow> r < n \<Longrightarrow> h' r = h r"
proof (induction d arbitrary: h n d' h' n')
  case Nil
  then show ?case by simp
next
  case (Cons p d)
  obtain sid j where p: "p = (sid, j)" by (cases p)
  obtain d1 h1 n1 where rest: "json_load d (h(n := j_messages j)) (Suc n) = (d1, h1, n1)"
    by (cases "json_load d (h(n := j_messages j)) (Suc n)")
  from Cons.prems(2) have "r < Suc n" by simp
  from Cons.IH [OF rest this] have "h1 r = (h(n := j_messages j)) r" .
  with Cons.prems p rest show ?case by simp
qed

lemma json_dump_json_load:
  "json_load d h n = (d', h', n') \<Longrightarrow> json_dump h' d' = d"
proof (induction d arbitrary: h n d' h' n')
  case Nil
  then show ?case by (simp add: json_dump_def)
next
  case (Cons p d)
  obtain sid j where p: "p = (sid, j)" by (cases p)
  obtain d1 h1 n1 where rest: "json_load d (h(n := j_messages j)) (Suc n) = (d1, h1, n1)"
    by (cases "json_load d (h(n := j_messages j)) (Suc n)")
  from Cons.prems p rest have d': "d' = (sid, \<lparr>e_title = j_title j, e_messages = n, e_timestamp = j_timestamp j\<rparr>) # d1"
    and h': "h' = h1" by simp_all
  have "h1 n = (h(n := j_messages j)) n"
    using json_load_heap_below [OF rest, of n] by simp
  then have first: "h1 n = j_messages j" by simp
  from Cons.IH [OF rest] have "json_dump h1 d1 = d" .
  with first d' h' p show ?case by (simp add: json_dump_def)
qed

lemma load_after_save:
  assumes "name \<noteq> []" and "ow (history_filename name) = Written"
  shows "load_history (snd (save_history doc (Some name) ow fs)) (Some name) = doc"
  using assms by (simp add: load_history_def save_history_def)

section \<open>The scenario state is reachable\<close>

text \<open>
  \<open>st_two\<close> is the state the application is in after \<^verbatim>\<open>alice\<close> has logged in to an empty
  working directory in which every write succeeds, asked a question, opened a new chat, asked another question and
  gone back to the first session.
\<close>

lemma title_printer:
  "take 30 (lit ''Where is the printer?'') @ lit ''...'' = lit ''Where is the printer?...''"
  by (simp add: lit_def)

lemma title_kitchen:
  "take 30 (lit ''Is there a kitchen?'') @ lit ''...'' = lit ''Is there a kitchen?...''"
  by (simp add: lit_def)

lemma st_two_reachable:
  "run [Chat None search_fails answers (lit ''2024-01-01 10:00:00'') (lit ''Where is the printer?''),
        New_chat (lit ''s2''),
        Chat None search_fails answers (lit ''2024-01-01 11:00:00'') (lit ''Is there a kitchen?''),
        Select (lit ''s1'')]
     (init_app (lit ''s1'') Map.empty (\<lambda>path. Written) (Some (lit ''alice'')) False) = st_two"
proof -
  have ne: "lit ''alice'' \<noteq> []" "lit ''Where is the printer?'' \<noteq> []"
    "lit ''Is there a kitchen?'' \<noteq> []" "lit ''s1'' \<noteq> lit ''s2''"
    by (simp_all add: lit_def)
  have c: "\<And>q. retrieval_block None search_fails q = Inr []"
    by (rule retrieval_block_None)
  have a: "\<And>s h q. answers s h q = Inr (lit ''On floor 2.'')"
    by (simp add: answers_def)
  let ?s0 = "\<lparr>files = Map.empty, on_write = (\<lambda>path. Written), heap = (\<lambda>r. [])(0 := []), next_ref = Suc 0,
       username = Some (lit ''alice''), guest_mode = False, full_history = [],
       current_session_id = lit ''s1'', messages = 0\<rparr>"
  have s0: "init_app (lit ''s1'') Map.empty (\<lambda>path. Written) (Some (lit ''alice'')) False = ?s0"
    using ne by (simp add: init_app_def load_history_def)
  let ?h1 = "(\<lambda>r. [])(0 := [\<lparr>role = lit ''user'', content = lit ''Where is the printer?''\<rparr>,
               \<lparr>role = lit ''assistant'', content = lit ''On floor 2.''\<rparr>])"
  let ?e1 = "\<lparr>e_title = Some (lit ''Where is the printer?...''), e_messages = 0,
                        e_timestamp = Some (lit ''2024-01-01 10:00:00'')\<rparr>"
  let ?j1 = "\<lparr>j_title = Some (lit ''Where is the printer?...''),
               j_messages = [\<lparr>role = lit ''user'', content = lit ''Where is the printer?''\<rparr>,
                             \<lparr>role = lit ''assistant'', content = lit ''On floor 2.''\<rparr>],
               j_timestamp = Some (lit ''2024-01-01 10:00:00'')\<rparr>"
  let ?s1 = "\<lparr>files = Map.empty(history_filename (lit ''alice'') \<mapsto> Json [(lit ''s1'', ?j1)]),
       on_write = (\<lambda>path. Written), heap = ?h1, next_ref = Suc 0,
       username = Some (lit ''alice''), guest_mode = False, full_history = [(lit ''s1'', ?e1)],
       current_session_id = lit ''s1'', messages = 0\<rparr>"
  have s1: "handle (Chat None search_fails answers (lit ''2024-01-01 10:00:00'')
      (lit ''Where is the printer?'')) ?s0 = ?s1"
    using ne
    by (simp add: chat_input_success
          [of "lit ''Where is the printer?''" None search_fails "[]" answers _ "lit ''On floor 2.''"]
          c a title_printer)
       (simp add: write_through_def save_history_def json_dump_def append_message_def
          title_printer)
  let ?s2 = "?s1\<lparr>current_session_id := lit ''s2'', heap := ?h1(Suc 0 := []), messages := Suc 0,
       next_ref := Suc (Suc 0)\<rparr>"
  have s2: "handle (New_chat (lit ''s2'')) ?s1 = ?s2"
    by (simp add: new_chat_def new_list_def)
  have s3: "handle (Chat None search_fails answers (lit ''2024-01-01 11:00:00'')
      (lit ''Is there a kitchen?'')) ?s2 = st_two\<lparr>current_session_id := lit ''s2'', messages := Suc 0\<rparr>"
    using ne
    by (simp add: chat_input_success
          [of "lit ''Is there a kitchen?''" None search_fails "[]" answers _ "lit ''On floor 2.''"]
          c a title_kitchen)
       (simp add: write_through_def save_history_def json_dump_def append_message_def
          st_two_def alice_files_def title_kitchen)
  have s4: "handle (Select (lit ''s1'')) (st_two\<lparr>current_session_id := lit ''s2'', messages := Suc 0\<rparr>) =
      st_two"
    using ne by (simp add: select_session_def getitem_def st_two_def)
  show ?thesis
    by (simp only: run.simps s0 s1 s2 s3 s4)
qed

section \<open>When the history cannot be written\<close>

text \<open>
  For the user \<^verbatim>\<open>a/b\<close> the turn renders the answer and then the error of
  \<^verbatim>\<open>save_history\<close>; the session is stored in memory only.
\<close>

lemma unwritable_error_text:
  "error_text (Exception (lit ''[Errno 2] No such file or directory'')) =
     lit ''An error occurred: [Errno 2] No such file or directory''"
  unfolding error_text_def lit_def by code_simp

lemma unwritable_write_through:
  "username st = Some (lit ''a/b'') \<Longrightarrow> \<not> guest_mode st \<Longrightarrow> on_write st = no_directory \<Longrightarrow>
     write_through st = (Some (Exception (lit ''[Errno 2] No such file or directory'')), st)"
proof -
  have "lit ''a/b'' \<noteq> []"
    by (simp add: lit_def)
  then show "write_through st = (Some (Exception (lit ''[Errno 2] No such file or directory'')), st)"
    if "username st = Some (lit ''a/b'')" "\<not> guest_mode st" "on_write st = no_directory"
    using that by (simp add: write_through_def save_history_def no_directory_def)
qed

lemma unwritable_turn:
  "chat_input None search_fails answers (lit ''2024-01-01 10:00:00'') (lit ''Where is the printer?'')
     (init_app (lit ''s1'') Map.empty no_directory (Some (lit ''a/b'')) False) =
   (Some (Markdown_then_error (lit ''On floor 2.'')
            (lit ''An error occurred: [Errno 2] No such file or directory'')),
    st_slash)"
proof -
  have ne: "lit ''a/b'' \<noteq> []" "lit ''Where is the printer?'' \<noteq> []"
    by (simp_all add: lit_def)
  let ?s0 = "\<lparr>files = Map.empty, on_write = no_directory, heap = (\<lambda>r. [])(0 := []),
       next_ref = Suc 0, username = Some (lit ''a/b''), guest_mode = False, full_history = [],
       current_session_id = lit ''s1'', messages = 0\<rparr>"
  have s0: "init_app (lit ''s1'') Map.empty no_directory (Some (lit ''a/b'')) False = ?s0"
    using ne by (simp add: init_app_def load_history_def)
  have c: "retrieval_block None search_fails (lit ''Where is the printer?'') = Inr []"
    by (rule retrieval_block_None)
  have a: "\<And>s h q. answers s h q = Inr (lit ''On floor 2.'')"
    by (simp add: answers_def)
  show ?thesis
    unfolding s0
    by (simp add: chat_input_success
          [of "lit ''Where is the printer?''" None search_fails "[]" answers _ "lit ''On floor 2.''"]
          ne c a unwritable_write_through unwritable_error_text)
       (simp add: st_slash_def append_message_def title_printer)
qed

text \<open>
  When that user deletes the open session, \<^verbatim>\<open>save_history\<close> raises after the entry
  has been deleted and before the reset: the handler ends with the exception, the
  history is empty, and the current session id and the message list are as before.
\<close>

lemma unwritable_delete:
  "delete_session (lit ''u1'') (lit ''s1'') st_slash =
     (Some (Failed (Exception (lit ''[Errno 2] No such file or directory''))),
      st_slash\<lparr>full_history := []\<rparr>)"
proof -
  have c: "contains (full_history st_slash) (lit ''s1'')"
    by (simp add: st_slash_def contains_def)
  have w: "write_through (st_slash\<lparr>full_history := []\<rparr>) =
      (Some (Exception (lit ''[Errno 2] No such file or directory'')), st_slash\<lparr>full_history := []\<rparr>)"
    by (rule unwritable_write_through) (simp_all add: st_slash_def)
  have f: "filter (\<lambda>(k', v). k' \<noteq> lit ''s1'') (full_history st_slash) = []"
    by (simp add: st_slash_def)
  show ?thesis
    by (simp add: delete_session_present [OF c] f w)
qed

end
